theory Spec2Isabelle
  imports Complex_Main
begin

section \<open>Cross-modal search over CLIP embeddings: the ranking core of script.js\<close>

text \<open>
  The development embeds three functions of \<^verbatim>\<open>script.js\<close>:
  \<^verbatim>\<open>processSearchableItems\<close> (the item embedder), the scoring callback inside
  \<^verbatim>\<open>findBestMatches\<close> (the similarity scorer) and \<^verbatim>\<open>findBestMatches\<close> itself (the ranker).
  The ranker is embedded twice: on values, for what it computes, and over an explicit
  heap, for what it changes; lemma \<open>findBestMatches_heap_refines\<close> relates the two.

  Conventions of the embedding.
  \<^item> A JavaScript number is a \<^typ>\<open>real\<close>. The only arithmetic the ranker does on scores
    is \<^verbatim>\<open>Math.max\<close> and the sign of a difference, and both are exact on finite IEEE
    doubles. \<^verbatim>\<open>cos_sim\<close> is imported from the transformers library, so it is a parameter
    \<open>cos_sim\<close> of every definition; it returns a finite number (a cosine), hence a real.
  \<^item> \<^verbatim>\<open>undefined\<close> is \<open>None\<close>: a missing property, the value an \<^verbatim>\<open>async\<close> callback
    returns when no branch is taken, an out-of-range index.
  \<^item> An exception or a rejected promise is \<open>Inl e\<close>; a returned value or a fulfilled
    promise is \<open>Inr v\<close>.
\<close>

subsection \<open>Errors\<close>

text \<open>
  \<open>TypeError\<close> is what the engine throws when a property of \<^verbatim>\<open>undefined\<close> is read.
  \<open>ProviderError\<close> stands for any failure of the tokenizer, the image reader, the
  processor or one of the two models. \<open>InvalidItemError\<close> and
  \<open>InvalidArgumentError\<close> are the names the specification uses; no statement of
  \<^verbatim>\<open>script.js\<close> raises them.
\<close>

datatype error = TypeError | ProviderError string | InvalidItemError | InvalidArgumentError

definition bind_err :: "error + 'a \<Rightarrow> ('a \<Rightarrow> error + 'b) \<Rightarrow> error + 'b" where
  "bind_err r f = (case r of Inl e \<Rightarrow> Inl e | Inr v \<Rightarrow> f v)"

text \<open>
  \<^verbatim>\<open>xs.map(f)\<close> with a callback that may throw: the first exception, in index order,
  leaves the loop.
\<close>

fun map_err :: "('a \<Rightarrow> error + 'b) \<Rightarrow> 'a list \<Rightarrow> error + 'b list" where
  "map_err f [] = Inr []"
| "map_err f (x # xs) =
     (case f x of
        Inl e \<Rightarrow> Inl e
      | Inr y \<Rightarrow> (case map_err f xs of Inl e \<Rightarrow> Inl e | Inr ys \<Rightarrow> Inr (y # ys)))"

subsection \<open>Data\<close>

type_synonym vec = "real list"

text \<open>A tensor of the library; only its \<^verbatim>\<open>data\<close> property is read.\<close>

datatype tensor = Tensor (data: vec)

text \<open>
  A searchable item \<^verbatim>\<open>{ text, image }\<close>; either property may be missing. The code
  tests the properties by truthiness, and the empty string is falsy.
\<close>

record item =
  item_text :: "string option"
  item_image :: "string option"

definition truthy :: "string option \<Rightarrow> bool" where
  "truthy s = (case s of None \<Rightarrow> False | Some v \<Rightarrow> v \<noteq> [])"

text \<open>
  The object built for an item: \<^verbatim>\<open>{ text_embed, image_embed, type }\<close>, where the
  branches for one modality leave the other property out.
\<close>

record embedded_item =
  text_embed :: "tensor option"
  image_embed :: "tensor option"
  type :: string

text \<open>A match \<^verbatim>\<open>{ index, similarity }\<close>.\<close>

record match =
  index :: nat
  similarity :: real

subsection \<open>The item embedder\<close>

text \<open>
  \<^verbatim>\<open>
  async function getTextEmbedding(tokenizer, text_model, text) {
      const inputs = tokenizer([text], { padding: true, truncation: true });
      const { text_embeds } = await text_model(inputs);
      return text_embeds[0];
  }
  \<close>
  The tokenizer and the model are parameters. The model's \<^verbatim>\<open>text_embeds\<close> is the list
  of its rows, and \<^verbatim>\<open>text_embeds[0]\<close> is \<^verbatim>\<open>undefined\<close> when there is no row.
\<close>

definition row0 :: "tensor list \<Rightarrow> tensor option" where
  "row0 rows = (case rows of [] \<Rightarrow> None | r # _ \<Rightarrow> Some r)"

definition getTextEmbedding ::
  "(string list \<Rightarrow> error + 'tok) \<Rightarrow> ('tok \<Rightarrow> error + tensor list) \<Rightarrow> string
     \<Rightarrow> error + tensor option" where
  "getTextEmbedding tokenizer text_model txt =
     bind_err (tokenizer [txt]) (\<lambda>inputs.
     bind_err (text_model inputs) (\<lambda>text_embeds.
     Inr (row0 text_embeds)))"

text \<open>
  \<^verbatim>\<open>
  async function getImageEmbedding(processor, vision_model, imageUrl) {
      const image = await RawImage.read(imageUrl);
      const inputs = await processor(image);
      const { image_embeds } = await vision_model(inputs);
      return image_embeds[0];
  }
  \<close>
  \<^verbatim>\<open>RawImage.read\<close> is a library function: the parameter \<open>read\<close>.
\<close>

definition getImageEmbedding ::
  "(string \<Rightarrow> error + 'img) \<Rightarrow> ('img \<Rightarrow> error + 'pix) \<Rightarrow> ('pix \<Rightarrow> error + tensor list)
     \<Rightarrow> string \<Rightarrow> error + tensor option" where
  "getImageEmbedding read processor vision_model imageUrl =
     bind_err (read imageUrl) (\<lambda>image.
     bind_err (processor image) (\<lambda>inputs.
     bind_err (vision_model inputs) (\<lambda>image_embeds.
     Inr (row0 image_embeds))))"

text \<open>
  The callback of \<^verbatim>\<open>items.map(async item => ...)\<close> in
  \<^verbatim>\<open>processSearchableItems\<close>. The parameters \<open>embedText\<close> and \<open>embedImage\<close> are
  \<^verbatim>\<open>getTextEmbedding\<close> and \<^verbatim>\<open>getImageEmbedding\<close> applied to the loaded models. When no
  branch is taken the callback returns \<^verbatim>\<open>undefined\<close>. (\<open>the\<close> is applied under the
  guard \<open>truthy\<close> only, where the property is there.)
\<close>

definition embed_item ::
  "(string \<Rightarrow> error + tensor option) \<Rightarrow> (string \<Rightarrow> error + tensor option) \<Rightarrow> item
     \<Rightarrow> error + embedded_item option" where
  "embed_item embedText embedImage it =
     (if truthy (item_text it) \<and> truthy (item_image it) then
        bind_err (embedText (the (item_text it))) (\<lambda>t.
        bind_err (embedImage (the (item_image it))) (\<lambda>i.
        Inr (Some \<lparr>text_embed = t, image_embed = i, type = ''both''\<rparr>)))
      else if truthy (item_text it) then
        bind_err (embedText (the (item_text it))) (\<lambda>t.
        Inr (Some \<lparr>text_embed = t, image_embed = None, type = ''text''\<rparr>))
      else if truthy (item_image it) then
        bind_err (embedImage (the (item_image it))) (\<lambda>i.
        Inr (Some \<lparr>text_embed = None, image_embed = i, type = ''image''\<rparr>))
      else Inr None)"

text \<open>
  \<^verbatim>\<open>Promise.all(items.map(...))\<close> is fulfilled with the array of the callbacks' values,
  position by position, when every promise is fulfilled, and rejected when one is.
  Which rejection it reports then depends on the order in which the promises settle;
  the model reports the one of the smallest index.
\<close>

definition processSearchableItems ::
  "(string list \<Rightarrow> error + 'tok) \<Rightarrow> ('tok \<Rightarrow> error + tensor list) \<Rightarrow>
   (string \<Rightarrow> error + 'img) \<Rightarrow> ('img \<Rightarrow> error + 'pix) \<Rightarrow> ('pix \<Rightarrow> error + tensor list) \<Rightarrow>
   item list \<Rightarrow> error + embedded_item option list" where
  "processSearchableItems tokenizer text_model read processor vision_model items =
     map_err (embed_item (getTextEmbedding tokenizer text_model)
                         (getImageEmbedding read processor vision_model)) items"

subsection \<open>The similarity scorer\<close>

text \<open>
  The callback of \<^verbatim>\<open>item_embeds.map(item => ...)\<close> in \<^verbatim>\<open>findBestMatches\<close>. Reading
  \<^verbatim>\<open>item.type\<close> of an \<^verbatim>\<open>undefined\<close> item, or \<^verbatim>\<open>.data\<close> of a missing embedding, throws.
  The last branch is an \<^verbatim>\<open>else\<close>: it takes every type other than \<^verbatim>\<open>'both'\<close> and
  \<^verbatim>\<open>'text'\<close>.
\<close>

definition embed_data :: "tensor option \<Rightarrow> error + vec" where
  "embed_data e = (case e of None \<Rightarrow> Inl TypeError | Some t \<Rightarrow> Inr (data t))"

definition score ::
  "(vec \<Rightarrow> vec \<Rightarrow> real) \<Rightarrow> tensor \<Rightarrow> embedded_item option \<Rightarrow> error + real" where
  "score cos_sim query_embed item =
     (case item of
        None \<Rightarrow> Inl TypeError
      | Some it \<Rightarrow>
          if type it = ''both'' then
            bind_err (embed_data (text_embed it)) (\<lambda>t.
            bind_err (embed_data (image_embed it)) (\<lambda>i.
            Inr (max (cos_sim (data query_embed) t) (cos_sim (data query_embed) i))))
          else if type it = ''text'' then
            bind_err (embed_data (text_embed it)) (\<lambda>t.
            Inr (cos_sim (data query_embed) t))
          else
            bind_err (embed_data (image_embed it)) (\<lambda>i.
            Inr (cos_sim (data query_embed) i)))"

subsection \<open>The ranker\<close>

text \<open>
  \<^verbatim>\<open>xs.sort(compare)\<close>. The engine's algorithm is not part of the repository;
  ECMAScript requires the result to be a stable sort of the array with respect to the
  comparator (\<open>compare a b < 0\<close> puts \<open>a\<close> first, and elements that compare equal keep
  their order). For a comparator that is a total preorder that result is unique, and
  insertion from the right computes it.
\<close>

fun sort_insert :: "('a \<Rightarrow> 'a \<Rightarrow> real) \<Rightarrow> 'a \<Rightarrow> 'a list \<Rightarrow> 'a list" where
  "sort_insert compare x [] = [x]"
| "sort_insert compare x (y # ys) =
     (if compare x y \<le> 0 then x # y # ys else y # sort_insert compare x ys)"

fun js_sort :: "('a \<Rightarrow> 'a \<Rightarrow> real) \<Rightarrow> 'a list \<Rightarrow> 'a list" where
  "js_sort compare [] = []"
| "js_sort compare (x # xs) = sort_insert compare x (js_sort compare xs)"

text \<open>
  \<^verbatim>\<open>xs.slice(start, end)\<close> for integer arguments: a negative argument counts from
  the end of the array, and both are clamped to the array.
\<close>

definition slice :: "'a list \<Rightarrow> int \<Rightarrow> int \<Rightarrow> 'a list" where
  "slice xs start stop =
     (let len = int (length xs);
          k = (if start < 0 then max (len + start) 0 else min start len);
          final = (if stop < 0 then max (len + stop) 0 else min stop len)
      in take (nat (final - k)) (drop (nat k) xs))"

text \<open>\<^verbatim>\<open>(a, b) => b.similarity - a.similarity\<close>\<close>

definition by_similarity :: "match \<Rightarrow> match \<Rightarrow> real" where
  "by_similarity a b = similarity b - similarity a"

text \<open>\<^verbatim>\<open>similarities.map((similarity, index) => ({ index, similarity }))\<close>\<close>

definition with_index :: "real list \<Rightarrow> match list" where
  "with_index similarities =
     map (\<lambda>(i, s). \<lparr>index = i, similarity = s\<rparr>) (enumerate 0 similarities)"

text \<open>
  \<^verbatim>\<open>
  function findBestMatches(query_embed, item_embeds, top_k = 3) {
      const similarities = item_embeds.map(item => ...);
      return similarities
          .map((similarity, index) => ({ index, similarity }))
          .sort((a, b) => b.similarity - a.similarity)
          .slice(0, top_k);
  }
  \<close>
  \<open>top_k\<close> is \<open>None\<close> when the argument is left out (or \<^verbatim>\<open>undefined\<close>), and the
  default 3 applies; otherwise it is an integer.
\<close>

definition findBestMatches ::
  "(vec \<Rightarrow> vec \<Rightarrow> real) \<Rightarrow> tensor \<Rightarrow> embedded_item option list \<Rightarrow> int option
     \<Rightarrow> error + match list" where
  "findBestMatches cos_sim query_embed item_embeds top_k =
     bind_err (map_err (score cos_sim query_embed) item_embeds) (\<lambda>similarities.
     Inr (slice (js_sort by_similarity (with_index similarities)) 0
            (case top_k of None \<Rightarrow> 3 | Some k \<Rightarrow> k)))"

subsection \<open>The ranker on the heap\<close>

text \<open>
  The definitions above pass arrays and objects by value. Whether
  \<^verbatim>\<open>findBestMatches\<close> changes its arguments, and whether a second call sees what the
  first one saw, depends on which arrays its \<^verbatim>\<open>sort\<close> works on; for that the function
  is embedded a second time, over an explicit heap.

  A value is \<^verbatim>\<open>undefined\<close>, a number, a string or a reference to an object of the heap.
  An object of the heap is a plain object (its properties in order of creation), an
  array, or a typed array of numbers (the \<^verbatim>\<open>data\<close> of a tensor). The heap is the list
  of its objects, an address is a position in it, and a new object goes to the end.
\<close>

datatype val = Undefined | Num real | Str string | Ref nat

datatype obj = Object "(string \<times> val) list" | Array "val list" | Float32Array vec

type_synonym heap = "obj list"

text \<open>
  \<^verbatim>\<open>v.p\<close>: reading a property of \<^verbatim>\<open>undefined\<close> throws; a property that is not there
  reads as \<^verbatim>\<open>undefined\<close>. Only plain objects have the properties the code names.
\<close>

definition get_prop :: "heap \<Rightarrow> val \<Rightarrow> string \<Rightarrow> error + val" where
  "get_prop h v p =
     (case v of
        Undefined \<Rightarrow> Inl TypeError
      | Ref a \<Rightarrow>
          (if a < length h then
             (case h ! a of
                Object ps \<Rightarrow> Inr (case map_of ps p of None \<Rightarrow> Undefined | Some w \<Rightarrow> w)
              | _ \<Rightarrow> Inr Undefined)
           else Inr Undefined)
      | _ \<Rightarrow> Inr Undefined)"

text \<open>The elements of an array; \<^verbatim>\<open>v.map\<close> of anything else is not a function.\<close>

definition elements :: "heap \<Rightarrow> val \<Rightarrow> error + val list" where
  "elements h v =
     (case v of
        Ref a \<Rightarrow>
          (if a < length h then
             (case h ! a of Array vs \<Rightarrow> Inr vs | _ \<Rightarrow> Inl TypeError)
           else Inl TypeError)
      | _ \<Rightarrow> Inl TypeError)"

text \<open>
  \<^verbatim>\<open>cos_sim(a, b)\<close>: the library function reads two typed arrays and changes neither.
  Given anything else it is outside its contract; it throws on \<^verbatim>\<open>undefined\<close>, and the
  model lets it throw on every other value too.
\<close>

definition float_data :: "heap \<Rightarrow> val \<Rightarrow> vec option" where
  "float_data h v =
     (case v of
        Ref a \<Rightarrow>
          (if a < length h then
             (case h ! a of Float32Array xs \<Rightarrow> Some xs | _ \<Rightarrow> None)
           else None)
      | _ \<Rightarrow> None)"

definition call_cos_sim :: "(vec \<Rightarrow> vec \<Rightarrow> real) \<Rightarrow> heap \<Rightarrow> val \<Rightarrow> val \<Rightarrow> error + real" where
  "call_cos_sim cos_sim h a b =
     (case float_data h a of
        None \<Rightarrow> Inl TypeError
      | Some x \<Rightarrow> (case float_data h b of None \<Rightarrow> Inl TypeError | Some y \<Rightarrow> Inr (cos_sim x y)))"

text \<open>\<^verbatim>\<open>cos_sim(query_embed.data, item.p.data)\<close> for \<open>p\<close> one of the two embeddings.\<close>

definition embed_cos ::
  "(vec \<Rightarrow> vec \<Rightarrow> real) \<Rightarrow> heap \<Rightarrow> val \<Rightarrow> val \<Rightarrow> string \<Rightarrow> error + real" where
  "embed_cos cos_sim h query_embed item p =
     bind_err (get_prop h query_embed ''data'') (\<lambda>qd.
     bind_err (get_prop h item p) (\<lambda>e.
     bind_err (get_prop h e ''data'') (\<lambda>ed.
     call_cos_sim cos_sim h qd ed)))"

text \<open>The scoring callback; it reads the heap and allocates nothing.\<close>

definition score_heap ::
  "(vec \<Rightarrow> vec \<Rightarrow> real) \<Rightarrow> heap \<Rightarrow> val \<Rightarrow> val \<Rightarrow> error + real" where
  "score_heap cos_sim h query_embed item =
     bind_err (get_prop h item ''type'') (\<lambda>ty.
       if ty = Str ''both'' then
         bind_err (embed_cos cos_sim h query_embed item ''text_embed'') (\<lambda>s1.
         bind_err (embed_cos cos_sim h query_embed item ''image_embed'') (\<lambda>s2.
         Inr (max s1 s2)))
       else if ty = Str ''text'' then embed_cos cos_sim h query_embed item ''text_embed''
       else embed_cos cos_sim h query_embed item ''image_embed'')"

text \<open>The object \<^verbatim>\<open>{ index, similarity }\<close> built for one element of \<^verbatim>\<open>similarities\<close>.\<close>

definition match_obj :: "nat \<times> val \<Rightarrow> obj" where
  "match_obj = (\<lambda>(i, s). Object [(''index'', Num (real i)), (''similarity'', s)])"

text \<open>
  \<^verbatim>\<open>(a, b) => b.similarity - a.similarity\<close> on two elements of the array being sorted.
  That array is the one the preceding \<^verbatim>\<open>map\<close> built, so both are match objects whose
  similarity is a number. The other case is there for totality: the difference is then
  not a number, which \<^verbatim>\<open>sort\<close> reads as 0.
\<close>

definition similarity_at :: "heap \<Rightarrow> val \<Rightarrow> real option" where
  "similarity_at h v = (case get_prop h v ''similarity'' of Inr (Num r) \<Rightarrow> Some r | _ \<Rightarrow> None)"

definition by_similarity_heap :: "heap \<Rightarrow> val \<Rightarrow> val \<Rightarrow> real" where
  "by_similarity_heap h a b =
     (case similarity_at h b of
        None \<Rightarrow> 0
      | Some x \<Rightarrow> (case similarity_at h a of None \<Rightarrow> 0 | Some y \<Rightarrow> x - y))"

text \<open>
  The chain of the \<^verbatim>\<open>return\<close> statement, from the scores computed:
  \<^item> \<open>h1\<close>: the array \<^verbatim>\<open>similarities\<close> is allocated;
  \<^item> \<open>h2\<close>, \<open>h3\<close>: \<^verbatim>\<open>.map(...)\<close> allocates one match object per score, at the addresses
    \<open>first, ..., mapped - 1\<close>, and a new array of the references to them, at \<open>mapped\<close>;
  \<^item> \<open>h4\<close>: \<^verbatim>\<open>.sort(...)\<close> sorts that new array in place;
  \<^item> \<open>h5\<close>: \<^verbatim>\<open>.slice(0, top_k)\<close> allocates the array that is returned.
\<close>

definition rank_heap :: "heap \<Rightarrow> real list \<Rightarrow> int \<Rightarrow> val \<times> heap" where
  "rank_heap h sims k =
     (let h1 = h @ [Array (map Num sims)];
          first = length h1;
          h2 = h1 @ map match_obj (enumerate 0 (map Num sims));
          mapped = length h2;
          refs = map Ref [first ..< mapped];
          h3 = h2 @ [Array refs];
          sorted = js_sort (by_similarity_heap h3) refs;
          h4 = h3[mapped := Array sorted];
          sliced = length h4;
          h5 = h4 @ [Array (slice sorted 0 k)]
      in (Ref sliced, h5))"

text \<open>
  \<^verbatim>\<open>findBestMatches\<close> on the heap: the result, or the exception, and the heap after the
  call. When the scoring callback throws, nothing reachable has been allocated.
\<close>

definition findBestMatches_heap ::
  "(vec \<Rightarrow> vec \<Rightarrow> real) \<Rightarrow> heap \<Rightarrow> val \<Rightarrow> val \<Rightarrow> int option \<Rightarrow> (error + val) \<times> heap" where
  "findBestMatches_heap cos_sim h query_embed item_embeds top_k =
     (case bind_err (elements h item_embeds) (map_err (score_heap cos_sim h query_embed)) of
        Inl e \<Rightarrow> (Inl e, h)
      | Inr similarities \<Rightarrow>
          (case rank_heap h similarities (case top_k of None \<Rightarrow> 3 | Some k \<Rightarrow> k) of
             (result, h') \<Rightarrow> (Inr result, h')))"

text \<open>
  What a caller reads from a call's outcome: the exception, or the \<^verbatim>\<open>index\<close> and
  \<^verbatim>\<open>similarity\<close> of every match of the returned array, in order.
\<close>

definition matches_of :: "heap \<Rightarrow> val \<Rightarrow> error + (val \<times> val) list" where
  "matches_of h v =
     bind_err (elements h v)
       (map_err (\<lambda>m. bind_err (get_prop h m ''index'') (\<lambda>i.
                      bind_err (get_prop h m ''similarity'') (\<lambda>s. Inr (i, s)))))"

definition outcome :: "(error + val) \<times> heap \<Rightarrow> error + (val \<times> val) list" where
  "outcome r = (case fst r of Inl e \<Rightarrow> Inl e | Inr v \<Rightarrow> matches_of (snd r) v)"

text \<open>
  A heap without dangling references: every reference held by an object of the heap is
  an address of the heap. \<open>val_in h v\<close> says the same of a value.
\<close>

definition val_in :: "heap \<Rightarrow> val \<Rightarrow> bool" where
  "val_in h v = (case v of Ref a \<Rightarrow> a < length h | _ \<Rightarrow> True)"

definition obj_in :: "heap \<Rightarrow> obj \<Rightarrow> bool" where
  "obj_in h ob =
     (case ob of
        Object ps \<Rightarrow> list_all (val_in h) (map snd ps)
      | Array vs \<Rightarrow> list_all (val_in h) vs
      | Float32Array xs \<Rightarrow> True)"

definition heap_closed :: "heap \<Rightarrow> bool" where
  "heap_closed h = list_all (obj_in h) h"

text \<open>A match as the caller reads it from the heap: its index and its similarity.\<close>

definition match_vals :: "match \<Rightarrow> val \<times> val" where
  "match_vals m = (Num (real (index m)), Num (similarity m))"

text \<open>
  The pieces of the heap after the chain: the match objects, the references to them in
  the order \<^verbatim>\<open>map\<close> creates them, and those references as \<^verbatim>\<open>sort\<close> leaves them.
\<close>

definition match_objs :: "real list \<Rightarrow> obj list" where
  "match_objs sims = map match_obj (enumerate 0 (map Num sims))"

definition match_refs :: "heap \<Rightarrow> real list \<Rightarrow> val list" where
  "match_refs h sims = map Ref [Suc (length h) ..< Suc (length h) + length sims]"

definition sorted_refs :: "heap \<Rightarrow> real list \<Rightarrow> val list" where
  "sorted_refs h sims =
     js_sort (by_similarity_heap
        (h @ [Array (map Num sims)] @ match_objs sims @ [Array (match_refs h sims)]))
       (match_refs h sims)"

text \<open>The match a reference to a match object stands for.\<close>

definition ref_match :: "heap \<Rightarrow> real list \<Rightarrow> val \<Rightarrow> match" where
  "ref_match h sims v =
     (case v of
        Ref a \<Rightarrow> \<lparr>index = a - Suc (length h), similarity = sims ! (a - Suc (length h))\<rparr>
      | _ \<Rightarrow> \<lparr>index = 0, similarity = 0\<rparr>)"

text \<open>
  The link between the two embeddings: the tensor, the embedded item and the catalog
  that a value of the heap stands for. \<open>None\<close> says the value is not of that shape (a
  tensor is an object whose \<^verbatim>\<open>data\<close> is a typed array; an item is \<^verbatim>\<open>undefined\<close> or an
  object whose \<^verbatim>\<open>type\<close> is a string and whose embeddings are tensors or missing).
\<close>

definition abs_tensor :: "heap \<Rightarrow> val \<Rightarrow> tensor option" where
  "abs_tensor h v =
     (case get_prop h v ''data'' of
        Inl _ \<Rightarrow> None
      | Inr d \<Rightarrow> map_option Tensor (float_data h d))"

definition abs_embed :: "heap \<Rightarrow> val \<Rightarrow> tensor option option" where
  "abs_embed h v = (if v = Undefined then Some None else map_option Some (abs_tensor h v))"

definition abs_item :: "heap \<Rightarrow> val \<Rightarrow> embedded_item option option" where
  "abs_item h v =
     (if v = Undefined then Some None
      else
        (case (get_prop h v ''type'', get_prop h v ''text_embed'', get_prop h v ''image_embed'') of
           (Inr (Str ty), Inr te, Inr ie) \<Rightarrow>
             (case (abs_embed h te, abs_embed h ie) of
                (Some t, Some i) \<Rightarrow> Some (Some \<lparr>text_embed = t, image_embed = i, type = ty\<rparr>)
              | _ \<Rightarrow> None)
         | _ \<Rightarrow> None))"

definition abs_catalog :: "heap \<Rightarrow> val \<Rightarrow> embedded_item option list option" where
  "abs_catalog h v =
     (case elements h v of Inl _ \<Rightarrow> None | Inr vs \<Rightarrow> those (map (abs_item h) vs))"

subsection \<open>Catalogs the ranker can score\<close>

text \<open>
  The scoring callback returns for an item exactly when the item is an object and the
  embedding its branch reads is there (lemma \<open>score_Inr_iff\<close>). The data model's
  invariant on embedded items (kind \<^verbatim>\<open>both\<close> has both embeddings, kind \<^verbatim>\<open>text\<close>
  the text embedding, kind \<^verbatim>\<open>image\<close> the image embedding) implies it.
\<close>

definition scorable :: "embedded_item option \<Rightarrow> bool" where
  "scorable item =
     (case item of
        None \<Rightarrow> False
      | Some it \<Rightarrow>
          if type it = ''both'' then text_embed it \<noteq> None \<and> image_embed it \<noteq> None
          else if type it = ''text'' then text_embed it \<noteq> None
          else image_embed it \<noteq> None)"

text \<open>
  The order of the ranker's output: a higher score first, and at equal scores the
  smaller catalog index first.
\<close>

definition before :: "match \<Rightarrow> match \<Rightarrow> bool" where
  "before a b \<longleftrightarrow>
     similarity b < similarity a \<or> (similarity a = similarity b \<and> index a < index b)"

subsection \<open>A small catalog and small models, for concrete runs\<close>

text \<open>The dot product: the cosine of two unit vectors.\<close>

definition dot :: "vec \<Rightarrow> vec \<Rightarrow> real" where
  "dot a b = sum_list (map2 (*) a b)"

definition q0 :: tensor where
  "q0 = Tensor [1, 0]"

definition catalog0 :: "embedded_item option list" where
  "catalog0 =
     [Some \<lparr>text_embed = None, image_embed = Some (Tensor [0, 1]), type = ''image''\<rparr>,
      Some \<lparr>text_embed = Some (Tensor [1, 0]), image_embed = None, type = ''text''\<rparr>,
      Some \<lparr>text_embed = Some (Tensor [0, 1]), image_embed = Some (Tensor [1, 0]),
            type = ''both''\<rparr>,
      Some \<lparr>text_embed = Some (Tensor [3 / 5, 4 / 5]), image_embed = None, type = ''text''\<rparr>]"

definition tokenizer0 :: "string list \<Rightarrow> error + nat list" where
  "tokenizer0 texts = Inr (map length texts)"

definition text_model0 :: "nat list \<Rightarrow> error + tensor list" where
  "text_model0 inputs = Inr (map (\<lambda>n. Tensor [real n, 1]) inputs)"

definition read0 :: "string \<Rightarrow> error + nat" where
  "read0 url = (if url = [] then Inl (ProviderError ''fetch'') else Inr (length url))"

definition processor0 :: "nat \<Rightarrow> error + nat list" where
  "processor0 img = Inr [img]"

definition vision_model0 :: "nat list \<Rightarrow> error + tensor list" where
  "vision_model0 inputs = Inr (map (\<lambda>n. Tensor [1, real n]) inputs)"

definition items0 :: "item list" where
  "items0 =
     [\<lparr>item_text = Some ''cat'', item_image = Some ''c.jpg''\<rparr>,
      \<lparr>item_text = Some ''dog'', item_image = None\<rparr>,
      \<lparr>item_text = None, item_image = Some ''p.jpg''\<rparr>]"

text \<open>
  A heap with two tensors (at 1 and 3), three embedded items (at 4, 5 and 6) and their
  catalog (at 7); the tensor at 3 is also the query.
\<close>

definition heap0 :: heap where
  "heap0 =
     [Float32Array [0, 1],
      Object [(''data'', Ref 0)],
      Float32Array [1, 0],
      Object [(''data'', Ref 2)],
      Object [(''image_embed'', Ref 1), (''type'', Str ''image'')],
      Object [(''text_embed'', Ref 3), (''type'', Str ''text'')],
      Object [(''text_embed'', Ref 1), (''image_embed'', Ref 3), (''type'', Str ''both'')],
      Array [Ref 4, Ref 5, Ref 6]]"

section \<open>Properties of the building blocks\<close>

subsection \<open>Mapping a callback that may throw\<close>

lemma map_err_Inr_D: "map_err f xs = Inr ys \<Longrightarrow> map f xs = map Inr ys"
  by (induction xs arbitrary: ys) (auto split: sum.splits)

lemma map_err_Inr_I: "map f xs = map Inr ys \<Longrightarrow> map_err f xs = Inr ys"
  by (induction xs arbitrary: ys) (auto simp: Cons_eq_map_conv)

lemma map_err_total:
  "(\<forall>x\<in>set xs. \<exists>y. f x = Inr y) \<Longrightarrow> \<exists>ys. map_err f xs = Inr ys"
  by (induction xs) (auto split: sum.splits)

lemma map_err_Inl_D: "map_err f xs = Inl e \<Longrightarrow> \<exists>x\<in>set xs. f x = Inl e"
  by (induction xs) (auto split: sum.splits)

subsection \<open>The scorer\<close>

lemma score_scorable: "scorable item \<Longrightarrow> \<exists>s. score c q item = Inr s"
  by (auto simp: scorable_def score_def bind_err_def embed_data_def
      split: option.splits if_splits)

lemma score_Inr_iff: "(\<exists>s. score c q item = Inr s) \<longleftrightarrow> scorable item"
  by (auto simp: scorable_def score_def bind_err_def embed_data_def
      split: option.splits if_splits)

lemma score_Inl_D: "score c q item = Inl e \<Longrightarrow> e = TypeError"
  by (auto simp: score_def bind_err_def embed_data_def split: option.splits if_splits)

subsection \<open>Sorting and slicing\<close>

lemma length_sort_insert: "length (sort_insert c x xs) = Suc (length xs)"
  by (induction xs) auto

lemma length_js_sort: "length (js_sort c xs) = length xs"
  by (induction xs) (auto simp: length_sort_insert)

lemma set_sort_insert: "set (sort_insert c x xs) = insert x (set xs)"
  by (induction xs) auto

lemma set_js_sort: "set (js_sort c xs) = set xs"
  by (induction xs) (auto simp: set_sort_insert)

lemma slice0:
  "slice xs 0 k =
     take (nat (if k < 0 then max (int (length xs) + k) 0 else min k (int (length xs)))) xs"
  by (simp add: slice_def Let_def)

lemma slice0_sorted: "sorted_wrt P xs \<Longrightarrow> sorted_wrt P (slice xs 0 k)"
  by (simp add: slice0)

lemma slice0_set: "set (slice xs 0 k) \<subseteq> set xs"
  by (simp add: slice0 set_take_subset)

lemma length_with_index: "length (with_index ss) = length ss"
  by (simp add: with_index_def)

lemma nth_with_index:
  "i < length ss \<Longrightarrow> with_index ss ! i = \<lparr>index = i, similarity = ss ! i\<rparr>"
  by (simp add: with_index_def nth_enumerate_eq)

lemma index_with_index:
  "m \<in> set (with_index ss) \<Longrightarrow> index m < length ss \<and> similarity m = ss ! index m"
  by (auto simp: with_index_def in_set_enumerate_eq)

lemma with_index_sorted: "sorted_wrt (\<lambda>a b. index a < index b) (with_index ss)"
  by (simp add: sorted_wrt_iff_nth_less length_with_index nth_with_index)

text \<open>
  Inserting a match whose index is below every index of a list in ranking order keeps
  the ranking order: the comparator sends it past the strictly higher scores only.
\<close>

lemma sorted_sort_insert:
  "sorted_wrt before ys \<Longrightarrow> \<forall>y\<in>set ys. index x < index y
     \<Longrightarrow> sorted_wrt before (sort_insert by_similarity x ys)"
  by (induction ys) (auto simp: set_sort_insert before_def by_similarity_def)

lemma js_sort_sorted:
  "sorted_wrt (\<lambda>a b. index a < index b) ms \<Longrightarrow> sorted_wrt before (js_sort by_similarity ms)"
  by (induction ms) (auto simp: sorted_sort_insert set_js_sort)

lemma ranked_sorted: "sorted_wrt before (js_sort by_similarity (with_index ss))"
  by (simp add: js_sort_sorted with_index_sorted)

subsection \<open>The ranker\<close>

text \<open>On a catalog it can score, the ranker returns the sliced, sorted, indexed scores.\<close>

lemma findBestMatches_Inr:
  assumes "list_all scorable items"
  shows "\<exists>ss. map (score c q) items = map Inr ss \<and>
           findBestMatches c q items top_k =
             Inr (slice (js_sort by_similarity (with_index ss)) 0
                    (case top_k of None \<Rightarrow> 3 | Some k \<Rightarrow> k))"
proof -
  from assms have "\<forall>x\<in>set items. \<exists>y. score c q x = Inr y"
    by (simp add: list_all_iff score_scorable)
  then obtain ss where ss: "map_err (score c q) items = Inr ss"
    using map_err_total by blast
  then have "map (score c q) items = map Inr ss" by (rule map_err_Inr_D)
  with ss show ?thesis by (auto simp: findBestMatches_def bind_err_def)
qed

text \<open>The only exception the ranker raises is the engine's \<open>TypeError\<close>.\<close>

lemma findBestMatches_Inl:
  "findBestMatches c q items top_k = Inl e \<Longrightarrow> e = TypeError"
  by (auto simp: findBestMatches_def bind_err_def split: sum.splits
      dest!: map_err_Inl_D score_Inl_D)

text \<open>Every match returned carries the index of a catalog entry and that entry's score.\<close>

lemma findBestMatches_similarity:
  assumes "findBestMatches c q items top_k = Inr ms" and "m \<in> set ms"
  shows "index m < length items \<and> score c q (items ! index m) = Inr (similarity m)"
proof -
  from assms(1) obtain ss where ss: "map_err (score c q) items = Inr ss"
    and ms: "ms = slice (js_sort by_similarity (with_index ss)) 0
                    (case top_k of None \<Rightarrow> 3 | Some k \<Rightarrow> k)"
    by (auto simp: findBestMatches_def bind_err_def split: sum.splits)
  from ss have eq: "map (score c q) items = map Inr ss" by (rule map_err_Inr_D)
  then have len: "length ss = length items" by (metis length_map)
  from assms(2) ms have "m \<in> set (with_index ss)"
    using slice0_set set_js_sort by fastforce
  then have i: "index m < length ss" and s: "similarity m = ss ! index m"
    using index_with_index by auto
  from eq i len have "score c q (items ! index m) = Inr (ss ! index m)"
    by (metis nth_map)
  with i len s show ?thesis by simp
qed

lemma findBestMatches_length:
  assumes "list_all scorable items"
  shows "\<exists>ms. findBestMatches c q items top_k = Inr ms \<and>
     int (length ms) =
       (let k = (case top_k of None \<Rightarrow> 3 | Some k \<Rightarrow> k); n = int (length items)
        in if k < 0 then max (n + k) 0 else min k n)"
proof -
  from findBestMatches_Inr [OF assms] obtain ss where
    eq: "map (score c q) items = map Inr ss" and
    r: "findBestMatches c q items top_k =
          Inr (slice (js_sort by_similarity (with_index ss)) 0
                 (case top_k of None \<Rightarrow> 3 | Some k \<Rightarrow> k))"
    by blast
  from eq have len: "length ss = length items" by (metis length_map)
  show ?thesis unfolding r
    by (auto simp: slice0 length_js_sort length_with_index len Let_def)
qed

subsection \<open>The embedder\<close>

lemma embed_item_both:
  assumes "truthy (item_text it)" and "truthy (item_image it)"
    and "embed_item eT eI it = Inr r"
  shows "\<exists>t im. eT (the (item_text it)) = Inr t \<and> eI (the (item_image it)) = Inr im \<and>
           r = Some \<lparr>text_embed = t, image_embed = im, type = ''both''\<rparr>"
  using assms by (auto simp: embed_item_def bind_err_def split: sum.splits)

text \<open>The load is fulfilled when the callback is fulfilled for every item.\<close>

lemma processSearchableItems_total:
  assumes "\<forall>it\<in>set items. \<exists>r.
             embed_item (getTextEmbedding tok tm) (getImageEmbedding rd pr vm) it = Inr r"
  shows "\<exists>rs. processSearchableItems tok tm rd pr vm items = Inr rs"
  unfolding processSearchableItems_def using assms by (rule map_err_total)

text \<open>
  What the embedder makes of an item with a text or an image is an entry the ranker can
  score, provided the models return a row for every input.
\<close>

lemma embed_item_scorable:
  assumes "embed_item eT eI it = Inr r"
    and "truthy (item_text it) \<or> truthy (item_image it)"
    and "\<And>s t. eT s = Inr t \<Longrightarrow> t \<noteq> None"
    and "\<And>s t. eI s = Inr t \<Longrightarrow> t \<noteq> None"
  shows "scorable r"
  using assms
  by (auto simp: embed_item_def bind_err_def scorable_def split: sum.splits if_splits)

text \<open>
  Presence is truthiness: a property holding the empty string counts as missing, so an
  item whose two properties are empty strings takes no branch either.
\<close>

lemma empty_string_is_absent:
  "embed_item eT eI \<lparr>item_text = Some [], item_image = Some []\<rparr> = Inr None"
  by (simp add: embed_item_def truthy_def)

subsection \<open>Concrete runs\<close>

lemma catalog0_scorable: "list_all scorable catalog0"
  by (simp add: catalog0_def scorable_def)

lemma catalog0_scores: "map_err (score dot q0) catalog0 = Inr [0, 1, 1, 3 / 5]"
  by (simp add: catalog0_def q0_def score_def bind_err_def embed_data_def dot_def)

lemma with_index0:
  "with_index [0, 1, 1, 3 / 5] =
     [\<lparr>index = 0, similarity = 0\<rparr>, \<lparr>index = 1, similarity = 1\<rparr>,
      \<lparr>index = 2, similarity = 1\<rparr>, \<lparr>index = 3, similarity = 3 / 5\<rparr>]"
  by (simp add: with_index_def enumerate_eq_zip upt_rec)

lemma sorted0:
  "js_sort by_similarity (with_index [0, 1, 1, 3 / 5]) =
     [\<lparr>index = 1, similarity = 1\<rparr>, \<lparr>index = 2, similarity = 1\<rparr>,
      \<lparr>index = 3, similarity = 3 / 5\<rparr>, \<lparr>index = 0, similarity = 0\<rparr>]"
  by (simp add: with_index0 by_similarity_def)

lemma catalog0_top:
  "findBestMatches dot q0 catalog0 (Some 3) =
     Inr [\<lparr>index = 1, similarity = 1\<rparr>, \<lparr>index = 2, similarity = 1\<rparr>,
          \<lparr>index = 3, similarity = 3 / 5\<rparr>]"
  by (simp add: findBestMatches_def catalog0_scores bind_err_def sorted0 slice_def)

lemma catalog0_default:
  "findBestMatches dot q0 catalog0 None =
     Inr [\<lparr>index = 1, similarity = 1\<rparr>, \<lparr>index = 2, similarity = 1\<rparr>,
          \<lparr>index = 3, similarity = 3 / 5\<rparr>]"
  by (simp add: findBestMatches_def catalog0_scores bind_err_def sorted0 slice_def)

lemma catalog0_zero: "findBestMatches dot q0 catalog0 (Some 0) = Inr []"
  by (simp add: findBestMatches_def catalog0_scores bind_err_def sorted0 slice_def)

lemma catalog0_neg:
  "findBestMatches dot q0 catalog0 (Some (- 1)) =
     Inr [\<lparr>index = 1, similarity = 1\<rparr>, \<lparr>index = 2, similarity = 1\<rparr>,
          \<lparr>index = 3, similarity = 3 / 5\<rparr>]"
  by (simp add: findBestMatches_def catalog0_scores bind_err_def sorted0 slice_def)

lemma items0_embedded:
  "processSearchableItems tokenizer0 text_model0 read0 processor0 vision_model0 items0 =
     Inr [Some \<lparr>text_embed = Some (Tensor [3, 1]), image_embed = Some (Tensor [1, 5]),
                type = ''both''\<rparr>,
          Some \<lparr>text_embed = Some (Tensor [3, 1]), image_embed = None, type = ''text''\<rparr>,
          Some \<lparr>text_embed = None, image_embed = Some (Tensor [1, 5]), type = ''image''\<rparr>]"
  by (simp add: processSearchableItems_def items0_def embed_item_def truthy_def bind_err_def
      getTextEmbedding_def getImageEmbedding_def tokenizer0_def text_model0_def read0_def
      processor0_def vision_model0_def row0_def)

section \<open>Properties of the ranker on the heap\<close>

subsection \<open>Reads are the same in a heap that has grown\<close>


lemma get_prop_ext: "val_in h v \<Longrightarrow> get_prop (h @ e) v p = get_prop h v p"
  by (auto simp: get_prop_def val_in_def nth_append split: val.splits)

lemma float_data_ext: "val_in h v \<Longrightarrow> float_data (h @ e) v = float_data h v"
  by (auto simp: float_data_def val_in_def nth_append split: val.splits)

lemma elements_ext: "val_in h v \<Longrightarrow> elements (h @ e) v = elements h v"
  by (auto simp: elements_def val_in_def nth_append split: val.splits)

lemma heap_closed_nth: "heap_closed h \<Longrightarrow> a < length h \<Longrightarrow> obj_in h (h ! a)"
  by (simp add: heap_closed_def list_all_length)

lemma get_prop_in:
  assumes "heap_closed h" and "val_in h v" and "get_prop h v p = Inr w"
  shows "val_in h w"
proof (cases v)
  case (Ref a)
  with assms(2) have a: "a < length h" by (simp add: val_in_def)
  show ?thesis
  proof (cases "h ! a")
    case (Object ps)
    with heap_closed_nth [OF assms(1) a] have all: "\<forall>x\<in>set ps. val_in h (snd x)"
      by (simp add: obj_in_def list_all_iff)
    from assms(3) Ref a Object
    have w: "w = (case map_of ps p of None \<Rightarrow> Undefined | Some w \<Rightarrow> w)"
      by (simp add: get_prop_def)
    show ?thesis
    proof (cases "map_of ps p")
      case None
      with w show ?thesis by (simp add: val_in_def)
    next
      case (Some u)
      then have "(p, u) \<in> set ps" by (rule map_of_SomeD)
      with all have "val_in h u" by fastforce
      with w Some show ?thesis by simp
    qed
  next
    case (Array vs)
    with assms(3) Ref a show ?thesis by (auto simp: get_prop_def val_in_def)
  next
    case (Float32Array xs)
    with assms(3) Ref a show ?thesis by (auto simp: get_prop_def val_in_def)
  qed
qed (use assms(3) in \<open>auto simp: get_prop_def val_in_def\<close>)

lemma elements_in:
  assumes "heap_closed h" and "val_in h v" and "elements h v = Inr vs"
  shows "\<forall>x\<in>set vs. val_in h x"
proof (cases v)
  case (Ref a)
  with assms(3) have a: "a < length h" and arr: "h ! a = Array vs"
    by (auto simp: elements_def split: if_splits obj.splits)
  from heap_closed_nth [OF assms(1) a] arr show ?thesis
    by (simp add: obj_in_def list_all_iff)
qed (use assms(3) in \<open>auto simp: elements_def\<close>)

lemma call_cos_sim_ext:
  "val_in h a \<Longrightarrow> val_in h b \<Longrightarrow> call_cos_sim c (h @ e) a b = call_cos_sim c h a b"
  by (simp add: call_cos_sim_def float_data_ext cong: option.case_cong)

lemma embed_cos_ext:
  assumes "heap_closed h" and "val_in h q" and "val_in h item"
  shows "embed_cos c (h @ e) q item p = embed_cos c h q item p"
proof -
  have 1: "get_prop (h @ e) q ''data'' = get_prop h q ''data''"
    using assms(2) by (rule get_prop_ext)
  have 2: "get_prop (h @ e) item p = get_prop h item p"
    using assms(3) by (rule get_prop_ext)
  show ?thesis
  proof (cases "get_prop h q ''data''")
    case (Inl x)
    with 1 show ?thesis by (simp add: embed_cos_def bind_err_def)
  next
    case qd: (Inr qd)
    then have qin: "val_in h qd" using get_prop_in [OF assms(1) assms(2)] by blast
    show ?thesis
    proof (cases "get_prop h item p")
      case (Inl x)
      with 1 2 qd show ?thesis by (simp add: embed_cos_def bind_err_def)
    next
      case ev: (Inr ev)
      then have ein: "val_in h ev" using get_prop_in [OF assms(1) assms(3)] by blast
      have 3: "get_prop (h @ e) ev ''data'' = get_prop h ev ''data''"
        using ein by (rule get_prop_ext)
      show ?thesis
      proof (cases "get_prop h ev ''data''")
        case (Inl x)
        with 1 2 3 qd ev show ?thesis by (simp add: embed_cos_def bind_err_def)
      next
        case ed: (Inr ed)
        then have "val_in h ed" using get_prop_in [OF assms(1) ein] by blast
        with qin have "call_cos_sim c (h @ e) qd ed = call_cos_sim c h qd ed"
          by (rule call_cos_sim_ext)
        with 1 2 3 qd ev ed show ?thesis by (simp add: embed_cos_def bind_err_def)
      qed
    qed
  qed
qed

lemma score_heap_ext:
  assumes "heap_closed h" and "val_in h q" and "val_in h item"
  shows "score_heap c (h @ e) q item = score_heap c h q item"
  by (simp add: score_heap_def get_prop_ext [OF assms(3)] embed_cos_ext [OF assms]
      cong: if_cong)

lemma map_err_cong: "(\<And>x. x \<in> set xs \<Longrightarrow> f x = g x) \<Longrightarrow> map_err f xs = map_err g xs"
  by (induction xs) (auto split: sum.splits)

lemma scores_ext:
  assumes "heap_closed h" and "val_in h q" and "val_in h items"
  shows "bind_err (elements (h @ e) items) (map_err (score_heap c (h @ e) q)) =
         bind_err (elements h items) (map_err (score_heap c h q))"
proof (cases "elements h items")
  case (Inl x)
  then show ?thesis by (simp add: elements_ext [OF assms(3)] bind_err_def)
next
  case (Inr vs)
  then have "\<forall>x\<in>set vs. val_in h x" using elements_in [OF assms(1) assms(3)] by blast
  then have "map_err (score_heap c (h @ e) q) vs = map_err (score_heap c h q) vs"
    by (intro map_err_cong score_heap_ext [OF assms(1) assms(2)]) blast
  with Inr show ?thesis by (simp add: elements_ext [OF assms(3)] bind_err_def)
qed

subsection \<open>The heap after the chain\<close>


lemma sort_insert_map:
  "(\<And>b. b \<in> set ys \<Longrightarrow> c x b = c' (f x) (f b))
     \<Longrightarrow> map f (sort_insert c x ys) = sort_insert c' (f x) (map f ys)"
  by (induction ys) auto

lemma js_sort_map:
  "(\<And>a b. a \<in> set xs \<Longrightarrow> b \<in> set xs \<Longrightarrow> c a b = c' (f a) (f b))
     \<Longrightarrow> map f (js_sort c xs) = js_sort c' (map f xs)"
proof (induction xs)
  case Nil
  show ?case by simp
next
  case (Cons x xs)
  have "map f (js_sort c xs) = js_sort c' (map f xs)"
    by (rule Cons.IH) (simp add: Cons.prems)
  moreover have "map f (sort_insert c x (js_sort c xs)) =
      sort_insert c' (f x) (map f (js_sort c xs))"
    by (rule sort_insert_map) (simp add: Cons.prems set_js_sort)
  ultimately show ?case by simp
qed

lemma slice_map: "map f (slice xs i k) = slice (map f xs) i k"
  by (simp add: slice_def Let_def take_map drop_map)

lemma map_err_Inr_map: "(\<And>x. x \<in> set xs \<Longrightarrow> f x = Inr (g x)) \<Longrightarrow> map_err f xs = Inr (map g xs)"
  by (induction xs) auto

lemma length_match_objs: "length (match_objs sims) = length sims"
  by (simp add: match_objs_def)

lemma nth_match_objs:
  "i < length sims \<Longrightarrow>
     match_objs sims ! i = Object [(''index'', Num (real i)), (''similarity'', Num (sims ! i))]"
  by (simp add: match_objs_def match_obj_def nth_enumerate_eq)

lemma rank_heap_eq:
  "rank_heap h sims k =
     (Ref (length h + length sims + 2),
      h @ [Array (map Num sims)] @ match_objs sims @ [Array (sorted_refs h sims)]
        @ [Array (slice (sorted_refs h sims) 0 k)])"
proof -
  have upd: "(h @ [Array (map Num sims)] @ match_objs sims @ [x])
               [length (h @ [Array (map Num sims)] @ match_objs sims) := y] =
             h @ [Array (map Num sims)] @ match_objs sims @ [y]" for x y
    using list_update_length [of "h @ [Array (map Num sims)] @ match_objs sims" x "[]" y]
    by simp
  show ?thesis
    unfolding rank_heap_def Let_def sorted_refs_def match_refs_def
    using upd by (simp add: match_objs_def)
qed


lemma get_prop_match:
  assumes "i < length sims"
  shows "get_prop (h @ S # match_objs sims @ rest) (Ref (Suc (length h + i))) p =
           Inr (case map_of [(''index'', Num (real i)), (''similarity'', Num (sims ! i))] p of
                  None \<Rightarrow> Undefined | Some w \<Rightarrow> w)"
proof -
  have "(h @ S # match_objs sims @ rest) ! (Suc (length h + i)) =
          ((h @ [S]) @ match_objs sims @ rest) ! (length (h @ [S]) + i)"
    by simp
  also have "\<dots> = (match_objs sims @ rest) ! i"
    by (rule nth_append_length_plus)
  also have "\<dots> = match_objs sims ! i"
    using assms by (simp add: nth_append length_match_objs)
  finally have nth: "(h @ S # match_objs sims @ rest) ! (Suc (length h + i)) =
      Object [(''index'', Num (real i)), (''similarity'', Num (sims ! i))]"
    using assms by (simp add: nth_match_objs)
  have "Suc (length h + i) < length (h @ S # match_objs sims @ rest)"
    using assms by (simp add: length_match_objs)
  with nth show ?thesis unfolding get_prop_def by simp
qed

lemma match_refs_D:
  "v \<in> set (match_refs h sims) \<Longrightarrow> \<exists>i<length sims. v = Ref (Suc (length h + i))"
proof -
  assume "v \<in> set (match_refs h sims)"
  then obtain a where a: "v = Ref a" "Suc (length h) \<le> a" "a < Suc (length h) + length sims"
    by (auto simp: match_refs_def)
  then have "a - Suc (length h) < length sims" "v = Ref (Suc (length h + (a - Suc (length h))))"
    by auto
  then show ?thesis by blast
qed

lemma map_ref_match: "map (ref_match h sims) (match_refs h sims) = with_index sims"
  by (rule nth_equalityI)
     (simp_all add: match_refs_def length_with_index nth_with_index ref_match_def
        del: upt_Suc)

lemma similarity_at_match:
  "i < length sims \<Longrightarrow>
     similarity_at (h @ S # match_objs sims @ rest) (Ref (Suc (length h + i))) = Some (sims ! i)"
  by (simp add: similarity_at_def get_prop_match)

lemma by_similarity_heap_match:
  assumes "a \<in> set (match_refs h sims)" and "b \<in> set (match_refs h sims)"
  shows "by_similarity_heap (h @ S # match_objs sims @ rest) a b =
           by_similarity (ref_match h sims a) (ref_match h sims b)"
proof -
  from match_refs_D [OF assms(1)] obtain i where i: "i < length sims" "a = Ref (Suc (length h + i))"
    by blast
  from match_refs_D [OF assms(2)] obtain j where j: "j < length sims" "b = Ref (Suc (length h + j))"
    by blast
  show ?thesis
    unfolding by_similarity_heap_def i(2) j(2)
    by (simp add: similarity_at_match [OF i(1)] similarity_at_match [OF j(1)]
        by_similarity_def ref_match_def)
qed

lemma map_sorted_refs:
  "map (ref_match h sims) (sorted_refs h sims) = js_sort by_similarity (with_index sims)"
proof -
  have "map (ref_match h sims) (sorted_refs h sims) =
          js_sort by_similarity (map (ref_match h sims) (match_refs h sims))"
    unfolding sorted_refs_def append_Cons append_Nil
    by (rule js_sort_map) (rule by_similarity_heap_match)
  then show ?thesis by (simp add: map_ref_match)
qed

lemma set_sorted_refs: "set (sorted_refs h sims) = set (match_refs h sims)"
  by (simp add: sorted_refs_def set_js_sort)

lemma rank_heap_matches:
  "matches_of (snd (rank_heap h sims k)) (fst (rank_heap h sims k)) =
     Inr (map match_vals (slice (js_sort by_similarity (with_index sims)) 0 k))"
proof -
  let ?S = "Array (map Num sims)"
  let ?sl = "slice (sorted_refs h sims) 0 k"
  let ?rest = "[Array (sorted_refs h sims), Array ?sl]"
  let ?H = "h @ ?S # match_objs sims @ ?rest"
  let ?a = "length h + length sims + 2"
  have H: "snd (rank_heap h sims k) = ?H" and a: "fst (rank_heap h sims k) = Ref ?a"
    by (simp_all add: rank_heap_eq)
  have "?H ! ?a = ((h @ ?S # match_objs sims @ [Array (sorted_refs h sims)]) @ [Array ?sl])
                    ! length (h @ ?S # match_objs sims @ [Array (sorted_refs h sims)])"
    by (simp add: length_match_objs)
  also have "\<dots> = Array ?sl" by (rule nth_append_length)
  finally have el: "elements ?H (Ref ?a) = Inr ?sl"
    by (simp add: elements_def length_match_objs)
  have one: "bind_err (get_prop ?H m ''index'') (\<lambda>i.
               bind_err (get_prop ?H m ''similarity'') (\<lambda>s. Inr (i, s))) =
             Inr (match_vals (ref_match h sims m))" if "m \<in> set ?sl" for m
  proof -
    from that have "m \<in> set (match_refs h sims)"
      using slice0_set set_sorted_refs by fastforce
    from match_refs_D [OF this] obtain i where i: "i < length sims" "m = Ref (Suc (length h + i))"
      by blast
    show ?thesis unfolding i(2)
      by (simp add: get_prop_match [OF i(1)] bind_err_def match_vals_def ref_match_def)
  qed
  have "matches_of ?H (Ref ?a) = Inr (map (\<lambda>m. match_vals (ref_match h sims m)) ?sl)"
    unfolding matches_of_def el bind_err_def
    by (simp add: map_err_Inr_map [OF one, unfolded bind_err_def])
  also have "map (\<lambda>m. match_vals (ref_match h sims m)) ?sl =
               map match_vals (map (ref_match h sims) ?sl)"
    by simp
  also have "map (ref_match h sims) ?sl = slice (js_sort by_similarity (with_index sims)) 0 k"
    by (simp add: slice_map map_sorted_refs)
  finally show ?thesis by (simp only: H a)
qed

lemma outcome_eq:
  "outcome (findBestMatches_heap c h q items top_k) =
     (case bind_err (elements h items) (map_err (score_heap c h q)) of
        Inl e \<Rightarrow> Inl e
      | Inr sims \<Rightarrow>
          Inr (map match_vals (slice (js_sort by_similarity (with_index sims)) 0
                 (case top_k of None \<Rightarrow> 3 | Some k \<Rightarrow> k))))"
proof (cases "bind_err (elements h items) (map_err (score_heap c h q))")
  case (Inl e)
  then show ?thesis by (simp add: findBestMatches_heap_def outcome_def)
next
  case (Inr sims)
  then show ?thesis
    using rank_heap_matches [of h sims "case top_k of None \<Rightarrow> 3 | Some k \<Rightarrow> k"]
    by (auto simp: findBestMatches_heap_def outcome_def split: prod.splits)
qed

lemma findBestMatches_heap_ext:
  "\<exists>e. snd (findBestMatches_heap c h q items top_k) = h @ e"
  by (cases "bind_err (elements h items) (map_err (score_heap c h q))")
     (simp_all add: findBestMatches_heap_def rank_heap_eq)


subsection \<open>The two embeddings agree\<close>


lemma embed_cos_refines:
  assumes "abs_tensor h q = Some qt" and "get_prop h v p = Inr e" and "abs_embed h e = Some t"
  shows "embed_cos c h q v p = bind_err (embed_data t) (\<lambda>x. Inr (c (data qt) x))"
proof -
  from assms(1) obtain d where d: "get_prop h q ''data'' = Inr d"
    and fd: "float_data h d = Some (data qt)"
    by (auto simp: abs_tensor_def split: sum.splits)
  show ?thesis
  proof (cases "e = Undefined")
    case True
    with assms(3) have "t = None" by (simp add: abs_embed_def)
    with True d assms(2) show ?thesis
      by (simp add: embed_cos_def bind_err_def embed_data_def get_prop_def)
  next
    case False
    with assms(3) obtain tt where t: "t = Some tt" and tt: "abs_tensor h e = Some tt"
      by (auto simp: abs_embed_def)
    from tt obtain d' where d': "get_prop h e ''data'' = Inr d'"
      and fd': "float_data h d' = Some (data tt)"
      by (auto simp: abs_tensor_def split: sum.splits)
    from d fd d' fd' assms(2) t show ?thesis
      by (simp add: embed_cos_def bind_err_def embed_data_def call_cos_sim_def)
  qed
qed

lemma score_refines:
  assumes "abs_tensor h q = Some qt" and "abs_item h v = Some it"
  shows "score_heap c h q v = score c qt it"
proof (cases "v = Undefined")
  case True
  with assms(2) have "it = None" by (simp add: abs_item_def)
  with True show ?thesis by (simp add: score_heap_def score_def get_prop_def bind_err_def)
next
  case False
  with assms(2) obtain ty te ie t i where
    ty: "get_prop h v ''type'' = Inr (Str ty)" and
    te: "get_prop h v ''text_embed'' = Inr te" and
    ie: "get_prop h v ''image_embed'' = Inr ie" and
    t: "abs_embed h te = Some t" and i: "abs_embed h ie = Some i" and
    it: "it = Some \<lparr>text_embed = t, image_embed = i, type = ty\<rparr>"
    by (auto simp: abs_item_def split: sum.splits val.splits option.splits)
  note ct = embed_cos_refines [OF assms(1) te t, of c]
  note ci = embed_cos_refines [OF assms(1) ie i, of c]
  show ?thesis
    unfolding score_heap_def score_def it ty
    by (simp add: ct ci bind_err_def split: sum.splits)
qed

lemma those_Some_D: "those xs = Some ys \<Longrightarrow> xs = map Some ys"
  by (induction xs arbitrary: ys) (auto split: option.splits)

lemma map_err_rel:
  "list_all2 (\<lambda>x y. f x = g y) xs ys \<Longrightarrow> map_err f xs = map_err g ys"
  by (induction xs ys rule: list_all2_induct) (auto split: sum.splits)

lemma scores_refine:
  assumes "abs_tensor h q = Some qt" and "abs_catalog h items = Some cat"
  shows "bind_err (elements h items) (map_err (score_heap c h q)) = map_err (score c qt) cat"
proof -
  from assms(2) obtain vs where vs: "elements h items = Inr vs"
    and th: "those (map (abs_item h) vs) = Some cat"
    by (auto simp: abs_catalog_def split: sum.splits)
  from those_Some_D [OF th] have "list_all2 (\<lambda>v it. abs_item h v = Some it) vs cat"
    by (simp add: list_all2_conv_all_nth map_equality_iff)
  then have "list_all2 (\<lambda>v it. score_heap c h q v = score c qt it) vs cat"
    by (rule list_all2_mono) (rule score_refines [OF assms(1)])
  then have "map_err (score_heap c h q) vs = map_err (score c qt) cat"
    by (rule map_err_rel)
  with vs show ?thesis by (simp add: bind_err_def)
qed

lemma findBestMatches_heap_refines:
  assumes "abs_tensor h query_embed = Some qt" and "abs_catalog h item_embeds = Some cat"
  shows "outcome (findBestMatches_heap c h query_embed item_embeds top_k) =
           (case findBestMatches c qt cat top_k of
              Inl e \<Rightarrow> Inl e
            | Inr ms \<Rightarrow> Inr (map match_vals ms))"
proof -
  have "outcome (findBestMatches_heap c h query_embed item_embeds top_k) =
          (case map_err (score c qt) cat of
             Inl e \<Rightarrow> Inl e
           | Inr sims \<Rightarrow>
               Inr (map match_vals (slice (js_sort by_similarity (with_index sims)) 0
                      (case top_k of None \<Rightarrow> 3 | Some k \<Rightarrow> k))))"
    by (simp only: outcome_eq scores_refine [OF assms])
  then show ?thesis
    by (cases "map_err (score c qt) cat") (simp_all add: findBestMatches_def bind_err_def)
qed

lemma heap0_closed: "heap_closed heap0"
  by (simp add: heap0_def heap_closed_def obj_in_def val_in_def)

lemma heap0_scores:
  "bind_err (elements heap0 (Ref 7)) (map_err (score_heap dot heap0 (Ref 3))) = Inr [0, 1, 1]"
  by (simp add: heap0_def elements_def score_heap_def embed_cos_def get_prop_def bind_err_def
      call_cos_sim_def float_data_def dot_def)

lemma heap0_outcome:
  "outcome (findBestMatches_heap dot heap0 (Ref 3) (Ref 7) (Some 2)) =
     Inr [(Num 1, Num 1), (Num 2, Num 1)]"
  by (simp add: outcome_eq heap0_scores with_index_def enumerate_eq_zip upt_rec
      by_similarity_def slice_def match_vals_def)

lemma heap0_abs:
  "abs_tensor heap0 (Ref 3) = Some q0 \<and>
   abs_catalog heap0 (Ref 7) =
     Some [Some \<lparr>text_embed = None, image_embed = Some (Tensor [0, 1]), type = ''image''\<rparr>,
           Some \<lparr>text_embed = Some (Tensor [1, 0]), image_embed = None, type = ''text''\<rparr>,
           Some \<lparr>text_embed = Some (Tensor [0, 1]), image_embed = Some (Tensor [1, 0]),
                 type = ''both''\<rparr>]"
  by (simp add: heap0_def abs_tensor_def abs_catalog_def abs_item_def abs_embed_def
      elements_def get_prop_def float_data_def q0_def)

text \<open>
  A call on \<open>heap0\<close>, written out: the call appends the array of the scores, the
  three match objects, the array \<^verbatim>\<open>sort\<close> has reordered and the array \<^verbatim>\<open>slice\<close>
  returns.
\<close>

lemma heap0_run:
  "findBestMatches_heap dot heap0 (Ref 3) (Ref 7) (Some 2) =
     (Inr (Ref 13),
      heap0 @
      [Array [Num 0, Num 1, Num 1],
       Object [(''index'', Num 0), (''similarity'', Num 0)],
       Object [(''index'', Num 1), (''similarity'', Num 1)],
       Object [(''index'', Num 2), (''similarity'', Num 1)],
       Array [Ref 10, Ref 11, Ref 9],
       Array [Ref 10, Ref 11]])"
proof -
  have len: "length heap0 = 8" by (simp add: heap0_def)
  have objs: "match_objs [0, 1, 1] =
      [Object [(''index'', Num 0), (''similarity'', Num 0)],
       Object [(''index'', Num 1), (''similarity'', Num 1)],
       Object [(''index'', Num 2), (''similarity'', Num 1)]]"
    by (simp add: match_objs_def match_obj_def enumerate_eq_zip upt_rec)
  have refs: "match_refs heap0 [0, 1, 1] = [Ref 9, Ref 10, Ref 11]"
    by (simp add: match_refs_def len upt_rec)
  have sim: "similarity_at (heap0 @ Array [Num 0, Num 1, Num 1] # match_objs [0, 1, 1] @ rest) (Ref 9) = Some 0"
    "similarity_at (heap0 @ Array [Num 0, Num 1, Num 1] # match_objs [0, 1, 1] @ rest) (Ref 10) = Some 1"
    "similarity_at (heap0 @ Array [Num 0, Num 1, Num 1] # match_objs [0, 1, 1] @ rest) (Ref 11) = Some 1"
    for rest
    using similarity_at_match [of 0 "[0, 1, 1]" heap0 "Array [Num 0, Num 1, Num 1]" rest]
      similarity_at_match [of 1 "[0, 1, 1]" heap0 "Array [Num 0, Num 1, Num 1]" rest]
      similarity_at_match [of 2 "[0, 1, 1]" heap0 "Array [Num 0, Num 1, Num 1]" rest]
    by (simp_all add: len)
  have sorted: "sorted_refs heap0 [0, 1, 1] = [Ref 10, Ref 11, Ref 9]"
    unfolding sorted_refs_def refs
    by (simp add: by_similarity_heap_def sim)
  show ?thesis
    by (simp add: findBestMatches_heap_def heap0_scores rank_heap_eq sorted objs len slice_def)
qed

section \<open>The claims about scoring, ranking and embedding\<close>

text \<open>
  C1. The score of an embedded item against a query: for kind \<^verbatim>\<open>text\<close> the cosine of
  the query and the text embedding, for kind \<^verbatim>\<open>image\<close> the cosine of the query and
  the image embedding, for kind \<^verbatim>\<open>both\<close> the larger of the two cosines. (Lemma
  \<open>findBestMatches_similarity\<close> shows that this score is the similarity of every match
  the ranker returns for the item.)
\<close>

theorem score_by_kind:
  "(type it = ''text'' \<and> text_embed it = Some t \<longrightarrow>
      score cos_sim q (Some it) = Inr (cos_sim (data q) (data t))) \<and>
   (type it = ''image'' \<and> image_embed it = Some i \<longrightarrow>
      score cos_sim q (Some it) = Inr (cos_sim (data q) (data i))) \<and>
   (type it = ''both'' \<and> text_embed it = Some t \<and> image_embed it = Some i \<longrightarrow>
      score cos_sim q (Some it) =
        Inr (max (cos_sim (data q) (data t)) (cos_sim (data q) (data i))))"
  by (simp add: score_def bind_err_def embed_data_def)

theorem score_by_kind_witness:
  "type \<lparr>text_embed = Some (Tensor [1, 0]), image_embed = None, type = ''text''\<rparr> = ''text'' \<and>
   score dot q0 (Some \<lparr>text_embed = Some (Tensor [1, 0]), image_embed = None,
                        type = ''text''\<rparr>) = Inr (dot [1, 0] [1, 0]) \<and>
   type \<lparr>text_embed = None, image_embed = Some (Tensor [0, 1]), type = ''image''\<rparr>
     = ''image'' \<and>
   score dot q0 (Some \<lparr>text_embed = None, image_embed = Some (Tensor [0, 1]),
                        type = ''image''\<rparr>) = Inr (dot [1, 0] [0, 1]) \<and>
   type \<lparr>text_embed = Some (Tensor [0, 1]), image_embed = Some (Tensor [1, 0]),
         type = ''both''\<rparr> = ''both'' \<and>
   score dot q0 (Some \<lparr>text_embed = Some (Tensor [0, 1]), image_embed = Some (Tensor [1, 0]),
                        type = ''both''\<rparr>) = Inr (max (dot [1, 0] [0, 1]) (dot [1, 0] [1, 0])) \<and>
   dot [1, 0] [1, 0] = 1 \<and> dot [1, 0] [0, 1] = 0"
  using
    score_by_kind [of "\<lparr>text_embed = Some (Tensor [1, 0]), image_embed = None,
                         type = ''text''\<rparr>" "Tensor [1, 0]" dot q0 "Tensor [0, 1]"]
    score_by_kind [of "\<lparr>text_embed = None, image_embed = Some (Tensor [0, 1]),
                         type = ''image''\<rparr>" "Tensor [1, 0]" dot q0 "Tensor [0, 1]"]
    score_by_kind [of "\<lparr>text_embed = Some (Tensor [0, 1]), image_embed = Some (Tensor [1, 0]),
                         type = ''both''\<rparr>" "Tensor [0, 1]" dot q0 "Tensor [1, 0]"]
  by (simp add: q0_def dot_def)

text \<open>
  C2, as amended. A \<^verbatim>\<open>top_k\<close> of zero or below is not rejected: no call of the ranker
  fails with \<open>InvalidArgumentError\<close>. On a catalog it can score, \<^verbatim>\<open>top_k = 0\<close> returns
  the empty sequence, and a negative \<^verbatim>\<open>top_k\<close> returns the full ranking without its
  last \<open>- top_k\<close> matches, that is its first \<open>max (length + top_k) 0\<close> matches.
\<close>

theorem nonpositive_top_k:
  "findBestMatches c q items top_k \<noteq> Inl InvalidArgumentError \<and>
   (list_all scorable items \<longrightarrow> findBestMatches c q items (Some 0) = Inr []) \<and>
   (k < 0 \<and> list_all scorable items \<longrightarrow>
     (\<exists>ranking. findBestMatches c q items (Some (int (length items))) = Inr ranking \<and>
        findBestMatches c q items (Some k) = Inr (take (nat (int (length items) + k)) ranking)))"
proof -
  have a: "findBestMatches c q items top_k \<noteq> Inl InvalidArgumentError"
    using findBestMatches_Inl by fastforce
  have z: "findBestMatches c q items (Some 0) = Inr []" if ok: "list_all scorable items"
    using findBestMatches_Inr [OF ok, of c q "Some 0"] by (auto simp: slice0)
  have b: "\<exists>ranking. findBestMatches c q items (Some (int (length items))) = Inr ranking \<and>
        findBestMatches c q items (Some k) = Inr (take (nat (int (length items) + k)) ranking)"
    if k: "k < 0" and ok: "list_all scorable items"
  proof -
    from findBestMatches_Inr [OF ok, of c q "Some k"] obtain ss where
      eq: "map (score c q) items = map Inr ss" and
      r: "findBestMatches c q items (Some k) =
            Inr (slice (js_sort by_similarity (with_index ss)) 0 k)"
      by auto
    from eq have m: "map_err (score c q) items = Inr ss" by (rule map_err_Inr_I)
    from eq have len: "length ss = length items" by (metis length_map)
    have full: "findBestMatches c q items (Some (int (length items))) =
                  Inr (js_sort by_similarity (with_index ss))"
      by (simp add: findBestMatches_def m bind_err_def slice0 length_js_sort
          length_with_index len)
    have "slice (js_sort by_similarity (with_index ss)) 0 k =
            take (nat (int (length items) + k)) (js_sort by_similarity (with_index ss))"
      using k by (auto simp: slice0 length_js_sort length_with_index len max_def)
    with r full show ?thesis by simp
  qed
  from a z b show ?thesis by blast
qed

theorem nonpositive_top_k_witness:
  "(- 1 :: int) < 0 \<and> list_all scorable catalog0 \<and>
   findBestMatches dot q0 catalog0 (Some 0) = Inr [] \<and>
   findBestMatches dot q0 catalog0 (Some (- 1)) =
     Inr [\<lparr>index = 1, similarity = 1\<rparr>, \<lparr>index = 2, similarity = 1\<rparr>,
          \<lparr>index = 3, similarity = 3 / 5\<rparr>] \<and>
   findBestMatches dot q0 catalog0 (Some (- 1)) \<noteq> Inl InvalidArgumentError"
  using nonpositive_top_k [of dot q0 catalog0 "Some (- 1)" "- 1"] catalog0_scorable
  by (simp add: catalog0_neg catalog0_zero)

text \<open>
  C2, as stated, fails: on the four-item catalog \<open>catalog0\<close> the ranker returns the
  empty sequence for \<^verbatim>\<open>top_k = 0\<close> and three matches for \<^verbatim>\<open>top_k = -1\<close>.
\<close>

theorem nonpositive_top_k_counterexample:
  "findBestMatches dot q0 catalog0 (Some 0) = Inr [] \<and>
   findBestMatches dot q0 catalog0 (Some 0) \<noteq> Inl InvalidArgumentError \<and>
   findBestMatches dot q0 catalog0 (Some (- 1)) \<noteq> Inl InvalidArgumentError"
  by (simp add: catalog0_zero catalog0_neg)

text \<open>
  C3, on the code. An item with neither a text nor an image takes no branch of the
  embedder's callback: the load is fulfilled, with \<^verbatim>\<open>undefined\<close> in the item's place, and
  no \<open>InvalidItemError\<close> is raised. The failure surfaces at query time, as the
  \<open>TypeError\<close> of reading \<^verbatim>\<open>item.type\<close>.
\<close>

theorem item_without_fields_not_rejected:
  "processSearchableItems tokenizer text_model read processor vision_model
     [\<lparr>item_text = None, item_image = None\<rparr>] = Inr [None] \<and>
   findBestMatches cos_sim query_embed [None] top_k = Inl TypeError"
  by (simp add: processSearchableItems_def embed_item_def truthy_def findBestMatches_def
      score_def bind_err_def)

text \<open>
  C4. On every catalog the ranker can score, and for every \<^verbatim>\<open>top_k\<close> (given or left
  out, positive or not), the ranker returns, and the matches it returns are in
  non-increasing order of score: each match scores at most what its predecessor does.
\<close>

theorem rank_sorted:
  assumes "list_all scorable items"
  shows "\<exists>ms. findBestMatches c q items top_k = Inr ms \<and>
           (\<forall>i. Suc i < length ms \<longrightarrow> similarity (ms ! Suc i) \<le> similarity (ms ! i))"
proof -
  from findBestMatches_Inr [OF assms] obtain ss where
    r: "findBestMatches c q items top_k =
          Inr (slice (js_sort by_similarity (with_index ss)) 0
                 (case top_k of None \<Rightarrow> 3 | Some k \<Rightarrow> k))"
    by blast
  define ms where
    "ms = slice (js_sort by_similarity (with_index ss)) 0
            (case top_k of None \<Rightarrow> 3 | Some k \<Rightarrow> k)"
  have "sorted_wrt before ms" unfolding ms_def by (rule slice0_sorted [OF ranked_sorted])
  then have "\<forall>i. Suc i < length ms \<longrightarrow> before (ms ! i) (ms ! Suc i)"
    by (simp add: sorted_wrt_iff_nth_less)
  then have adj: "\<forall>i. Suc i < length ms \<longrightarrow> similarity (ms ! Suc i) \<le> similarity (ms ! i)"
    by (auto simp: before_def)
  from r have "findBestMatches c q items top_k = Inr ms" by (simp add: ms_def)
  with adj show ?thesis by blast
qed

theorem rank_sorted_witness:
  "list_all scorable catalog0 \<and>
   findBestMatches dot q0 catalog0 (Some 3) =
     Inr [\<lparr>index = 1, similarity = 1\<rparr>, \<lparr>index = 2, similarity = 1\<rparr>,
          \<lparr>index = 3, similarity = 3 / 5\<rparr>] \<and>
   similarity \<lparr>index = 2, similarity = 1\<rparr> \<le> similarity \<lparr>index = 1, similarity = 1\<rparr> \<and>
   similarity \<lparr>index = 3, similarity = 3 / 5\<rparr> \<le> similarity \<lparr>index = 2, similarity = 1\<rparr>"
  using rank_sorted [OF catalog0_scorable, of dot q0 "Some 3"] catalog0_scorable
  by (simp add: catalog0_top)

text \<open>
  C5. On every catalog the ranker can score, two returned matches with exactly equal
  scores stand in the order of their catalog indices: the earlier one has the smaller
  index.
\<close>

theorem rank_stable:
  assumes "list_all scorable items"
  shows "\<exists>ms. findBestMatches c q items top_k = Inr ms \<and>
           (\<forall>i j. i < j \<and> j < length ms \<and> similarity (ms ! i) = similarity (ms ! j)
                    \<longrightarrow> index (ms ! i) < index (ms ! j))"
proof -
  from findBestMatches_Inr [OF assms] obtain ss where
    r: "findBestMatches c q items top_k =
          Inr (slice (js_sort by_similarity (with_index ss)) 0
                 (case top_k of None \<Rightarrow> 3 | Some k \<Rightarrow> k))"
    by blast
  define ms where
    "ms = slice (js_sort by_similarity (with_index ss)) 0
            (case top_k of None \<Rightarrow> 3 | Some k \<Rightarrow> k)"
  have "sorted_wrt before ms" unfolding ms_def by (rule slice0_sorted [OF ranked_sorted])
  then have "\<forall>i j. i < j \<and> j < length ms \<longrightarrow> before (ms ! i) (ms ! j)"
    by (simp add: sorted_wrt_iff_nth_less)
  then have st: "\<forall>i j. i < j \<and> j < length ms \<and> similarity (ms ! i) = similarity (ms ! j)
                    \<longrightarrow> index (ms ! i) < index (ms ! j)"
    unfolding before_def by (metis less_irrefl)
  from r have "findBestMatches c q items top_k = Inr ms" by (simp add: ms_def)
  with st show ?thesis by blast
qed

theorem rank_stable_witness:
  "list_all scorable catalog0 \<and>
   findBestMatches dot q0 catalog0 (Some 3) =
     Inr [\<lparr>index = 1, similarity = 1\<rparr>, \<lparr>index = 2, similarity = 1\<rparr>,
          \<lparr>index = 3, similarity = 3 / 5\<rparr>] \<and>
   score dot q0 (catalog0 ! 1) = score dot q0 (catalog0 ! 2) \<and> (1::nat) < 2"
  using rank_stable [OF catalog0_scorable, of dot q0 "Some 3"] catalog0_scorable
  by (simp add: catalog0_top)
     (simp add: catalog0_def q0_def score_def bind_err_def embed_data_def dot_def)

text \<open>
  C6. For \<^verbatim>\<open>top_k > 0\<close> and a catalog the ranker can score, the ranker returns exactly
  \<open>min top_k (length catalog)\<close> matches; on the empty catalog it returns the empty
  sequence, not an error.
\<close>

theorem rank_length:
  "(0 < k \<and> list_all scorable items \<longrightarrow>
     (\<exists>ms. findBestMatches c q items (Some k) = Inr ms \<and>
           int (length ms) = min k (int (length items)))) \<and>
   (0 < k \<longrightarrow> findBestMatches c q [] (Some k) = Inr [])"
proof -
  have "findBestMatches c q [] (Some k) = Inr []"
    by (simp add: findBestMatches_def bind_err_def with_index_def slice_def)
  then show ?thesis
    using findBestMatches_length [of items c q "Some k"] by (auto simp: Let_def)
qed

theorem rank_length_witness:
  "(0::int) < 3 \<and> list_all scorable catalog0 \<and>
   findBestMatches dot q0 catalog0 (Some 3) =
     Inr [\<lparr>index = 1, similarity = 1\<rparr>, \<lparr>index = 2, similarity = 1\<rparr>,
          \<lparr>index = 3, similarity = 3 / 5\<rparr>] \<and>
   int (length catalog0) = 4 \<and>
   findBestMatches dot q0 [] (Some 3) = Inr []"
  using rank_length [of 3 catalog0 dot q0] catalog0_scorable
  by (simp add: catalog0_top) (simp add: catalog0_def)

text \<open>
  C7, as amended. When the load is fulfilled, its result has the length of the input and
  its entry at every index is what the embedder's callback returns for the item at that
  index; for an item whose text and image are both present and not the empty string
  (\<open>truthy\<close>, the test the code applies), the text embedding and the image embedding
  are both computed and the entry is tagged \<^verbatim>\<open>both\<close>.
\<close>

theorem embed_catalog_index:
  assumes "processSearchableItems tok tm rd pr vm items = Inr rs"
  shows "length rs = length items \<and>
     (\<forall>i<length items.
        embed_item (getTextEmbedding tok tm) (getImageEmbedding rd pr vm) (items ! i) =
          Inr (rs ! i)) \<and>
     (\<forall>i<length items. truthy (item_text (items ! i)) \<and> truthy (item_image (items ! i)) \<longrightarrow>
        (\<exists>t im. getTextEmbedding tok tm (the (item_text (items ! i))) = Inr t \<and>
                getImageEmbedding rd pr vm (the (item_image (items ! i))) = Inr im \<and>
                rs ! i = Some \<lparr>text_embed = t, image_embed = im, type = ''both''\<rparr>))"
proof -
  let ?f = "embed_item (getTextEmbedding tok tm) (getImageEmbedding rd pr vm)"
  from assms have eq: "map ?f items = map Inr rs"
    unfolding processSearchableItems_def by (rule map_err_Inr_D)
  then have len: "length rs = length items" by (metis length_map)
  have nth: "?f (items ! i) = Inr (rs ! i)" if "i < length items" for i
    using eq that len by (metis nth_map)
  have both: "\<exists>t im. getTextEmbedding tok tm (the (item_text (items ! i))) = Inr t \<and>
                getImageEmbedding rd pr vm (the (item_image (items ! i))) = Inr im \<and>
                rs ! i = Some \<lparr>text_embed = t, image_embed = im, type = ''both''\<rparr>"
    if "i < length items" and "truthy (item_text (items ! i))"
      and "truthy (item_image (items ! i))" for i
    using embed_item_both [OF that(2) that(3) nth [OF that(1)]] .
  from len nth both show ?thesis by blast
qed

theorem embed_catalog_index_witness:
  "processSearchableItems tokenizer0 text_model0 read0 processor0 vision_model0 items0 =
     Inr [Some \<lparr>text_embed = Some (Tensor [3, 1]), image_embed = Some (Tensor [1, 5]),
                type = ''both''\<rparr>,
          Some \<lparr>text_embed = Some (Tensor [3, 1]), image_embed = None, type = ''text''\<rparr>,
          Some \<lparr>text_embed = None, image_embed = Some (Tensor [1, 5]), type = ''image''\<rparr>] \<and>
   length items0 = 3 \<and>
   truthy (item_text (items0 ! 0)) \<and> truthy (item_image (items0 ! 0))"
  using embed_catalog_index [OF items0_embedded]
  by (simp add: items0_embedded) (simp add: items0_def truthy_def)

text \<open>
  C7, as stated, fails: an item whose text is present but empty and whose image is
  present is embedded as an image only. The guards \<^verbatim>\<open>item.text && item.image\<close> and
  \<^verbatim>\<open>item.text\<close> are falsy for the empty string, so no text embedding is computed and
  the entry is tagged \<^verbatim>\<open>image\<close>, not \<^verbatim>\<open>both\<close>.
\<close>

theorem embed_catalog_index_counterexample:
  "item_text \<lparr>item_text = Some [], item_image = Some ''p.jpg''\<rparr> \<noteq> None \<and>
   item_image \<lparr>item_text = Some [], item_image = Some ''p.jpg''\<rparr> \<noteq> None \<and>
   processSearchableItems tokenizer0 text_model0 read0 processor0 vision_model0
     [\<lparr>item_text = Some [], item_image = Some ''p.jpg''\<rparr>] =
     Inr [Some \<lparr>text_embed = None, image_embed = Some (Tensor [1, 5]), type = ''image''\<rparr>]"
  by (simp add: processSearchableItems_def embed_item_def truthy_def bind_err_def
      getImageEmbedding_def read0_def processor0_def vision_model0_def row0_def)

text \<open>
  C8. Two calls of the ranker with the same query, the same catalog and the same
  \<^verbatim>\<open>top_k\<close>, the second on the heap the first leaves behind, have the same outcome: the
  same exception, or the same matches (index and similarity) in the same order. The
  heap of the first call has no dangling reference, as every heap of a program.
\<close>

theorem rank_twice:
  assumes "heap_closed h" and "val_in h query_embed" and "val_in h item_embeds"
  shows "outcome (findBestMatches_heap cos_sim
                    (snd (findBestMatches_heap cos_sim h query_embed item_embeds top_k))
                    query_embed item_embeds top_k) =
         outcome (findBestMatches_heap cos_sim h query_embed item_embeds top_k)"
proof -
  from findBestMatches_heap_ext obtain e where
    e: "snd (findBestMatches_heap cos_sim h query_embed item_embeds top_k) = h @ e"
    by blast
  show ?thesis unfolding e outcome_eq scores_ext [OF assms] ..
qed

theorem rank_twice_witness:
  "heap_closed heap0 \<and> val_in heap0 (Ref 3) \<and> val_in heap0 (Ref 7) \<and>
   outcome (findBestMatches_heap dot heap0 (Ref 3) (Ref 7) (Some 2)) =
     Inr [(Num 1, Num 1), (Num 2, Num 1)] \<and>
   outcome (findBestMatches_heap dot
              (snd (findBestMatches_heap dot heap0 (Ref 3) (Ref 7) (Some 2)))
              (Ref 3) (Ref 7) (Some 2)) =
     Inr [(Num 1, Num 1), (Num 2, Num 1)]"
proof -
  have v: "val_in heap0 (Ref 3)" "val_in heap0 (Ref 7)"
    by (simp_all add: val_in_def heap0_def)
  from rank_twice [OF heap0_closed v, of dot "Some 2"] heap0_closed v heap0_outcome
  show ?thesis by simp
qed

text \<open>
  C9. A call of the ranker, returning or throwing, leaves every object that was on the
  heap before it as it was: the heap after the call is the heap before it, followed by
  the objects the call allocated. So the catalog array, the embedded items, their
  tensors and the query are unchanged. (\<^verbatim>\<open>sort\<close> works in place, on the array that
  \<^verbatim>\<open>map\<close> has just allocated.)
\<close>

theorem rank_frame:
  "take (length h) (snd (findBestMatches_heap cos_sim h query_embed item_embeds top_k)) = h"
proof -
  from findBestMatches_heap_ext obtain e where
    "snd (findBestMatches_heap cos_sim h query_embed item_embeds top_k) = h @ e"
    by blast
  then show ?thesis by simp
qed

text \<open>
  C10. A call that leaves \<^verbatim>\<open>top_k\<close> out is the call with \<^verbatim>\<open>top_k = 3\<close>; on a catalog
  the ranker can score it returns exactly \<open>min 3 (length catalog)\<close> matches.
\<close>

theorem default_top_k:
  "findBestMatches c q items None = findBestMatches c q items (Some 3) \<and>
   (list_all scorable items \<longrightarrow>
      (\<exists>ms. findBestMatches c q items None = Inr ms \<and> length ms = min 3 (length items)))"
proof -
  have a: "findBestMatches c q items None = findBestMatches c q items (Some 3)"
    by (simp add: findBestMatches_def)
  have "\<exists>ms. findBestMatches c q items None = Inr ms \<and> length ms = min 3 (length items)"
    if "list_all scorable items"
    using findBestMatches_length [OF that, of c q None] by (auto simp: Let_def)
  with a show ?thesis by blast
qed

theorem default_top_k_witness:
  "list_all scorable catalog0 \<and>
   findBestMatches dot q0 catalog0 None =
     Inr [\<lparr>index = 1, similarity = 1\<rparr>, \<lparr>index = 2, similarity = 1\<rparr>,
          \<lparr>index = 3, similarity = 3 / 5\<rparr>] \<and>
   length catalog0 = 4"
  using default_top_k [of dot q0 catalog0] catalog0_scorable
  by (simp add: catalog0_default) (simp add: catalog0_def)

end
